theory Spec2Isabelle
  imports Main
begin

section \<open>TaskForge: the task store, the expiry sweep, the timer and the mutations\<close>

text \<open>
  A shallow embedding of \<^verbatim>\<open>taskforge.py\<close>.

  Scope of the model.
  \<^item> A stored task is the dictionary built by \<^verbatim>\<open>criar_tarefa_interativa\<close>: its nine keys
    are the fields of the record \<open>tarefa\<close>, with the types that function writes; every
    other key of the stored object (such as the obsolete \<^verbatim>\<open>"tipo"\<close>) lives in the
    association list \<open>outros\<close>.
  \<^item> The file \<^verbatim>\<open>tarefas.json\<close> is absent, unparseable, or an array of such objects;
    \<^verbatim>\<open>json.dump\<close> followed by \<^verbatim>\<open>json.load\<close> is taken to give back the array written.
  \<^item> A character is a code point below 256 (Latin-1, which has the letters of
    Portuguese). The lines typed by the user are parameters of the operations, in the
    order of the \<^verbatim>\<open>input()\<close> calls; prompts are not recorded.
  \<^item> A naive timestamp (no UTC offset), which is all the program writes, is an integer, and
    the integers are ordered as the instants are. The three \<^verbatim>\<open>datetime\<close> library
    functions are parameters (record \<open>biblioteca\<close>).
  \<^item> The clock, the fresh identifier, the measured duration and the result of the task
    selection are parameters; the lock and the background thread are not modelled.
\<close>

subsection \<open>Data\<close>

datatype json = JNull | JBool bool | JNum int | JStr string
  | JArr "json list" | JObj "(string \<times> json) list"

record tarefa =
  id_tarefa :: string
  titulo :: string
  descricao :: string
  quantidade :: "int option"
  prazo :: "string option"
  concluida :: bool
  criado_em :: string
  ultimo_tempo_seg :: int
  total_tempo_seg :: int
  outros :: "(string \<times> json) list"

type_synonym instante = int

text \<open>
  A \<^verbatim>\<open>datetime\<close> object is naive or aware (it carries a UTC offset). The clock
  \<^verbatim>\<open>datetime.now()\<close> and what \<^verbatim>\<open>strptime\<close> reads with \<^verbatim>\<open>DATE_FMT\<close> are naive;
  \<^verbatim>\<open>fromisoformat\<close> gives an aware object for a string written with an offset.
\<close>

datatype datetime = Naive instante | Aware instante

text \<open>
  \<open>strptime s\<close> is \<^verbatim>\<open>datetime.strptime(s, DATE_FMT)\<close> and \<open>fromisoformat s\<close> is
  \<^verbatim>\<open>datetime.fromisoformat(s)\<close>, with \<open>None\<close> where Python raises; \<open>isoformat d\<close> is
  \<^verbatim>\<open>d.isoformat()\<close>, which the program calls on naive objects only.
\<close>

record biblioteca =
  strptime :: "string \<Rightarrow> instante option"
  fromisoformat :: "string \<Rightarrow> datetime option"
  isoformat :: "instante \<Rightarrow> string"

text \<open>
  The lines the program prints, one constructor for each \<^verbatim>\<open>print\<close> of the functions
  modelled, in the order of the source: the automatic removal of a task (id prefix and title), the title that
  is required, the invalid date format, the task created (id prefix), no task found, one
  line of the list of matches (number, id prefix and title), the task updated, the task
  deleted, the state changed, and the timer saved (minutes and seconds).
\<close>

datatype mensagem =
    AutoRemovida string string
  | TituloObrigatorio
  | FormatoDataInvalido
  | TarefaCriada string
  | NenhumaTarefaEncontrada
  | Opcao nat string string
  | TarefaAtualizada
  | TarefaExcluida
  | EstadoAlterado
  | CronometroSalvo int int

datatype documento = Malformado | Documento "tarefa list"

datatype evento = Salvou "tarefa list" | Imprimiu mensagem

text \<open>
  The world: the backing file (\<open>None\<close> when it does not exist) and the trace of what the
  program did, a \<open>Salvou\<close> for each call of \<^verbatim>\<open>salvar_tarefas\<close> and an \<open>Imprimiu\<close> for each
  line printed.
\<close>

record mundo =
  arquivo :: "documento option"
  eventos :: "evento list"

text \<open>
  The exceptions the operations can raise: \<^verbatim>\<open>ValueError\<close>, from \<^verbatim>\<open>int()\<close> on a string
  that is no number, and \<^verbatim>\<open>TypeError\<close>, from the comparison of an aware deadline with
  the clock.
\<close>

datatype erro = ValueError | TypeError

subsection \<open>Strings\<close>

text \<open>\<^verbatim>\<open>str.isspace\<close>, which is also what \<^verbatim>\<open>str.strip()\<close> removes.\<close>

definition isspace :: "char \<Rightarrow> bool" where
  "isspace c = (c \<in> set [CHR 0x09, CHR 0x0A, CHR 0x0B, CHR 0x0C, CHR 0x0D,
                          CHR 0x1C, CHR 0x1D, CHR 0x1E, CHR 0x1F, CHR '' '',
                          CHR 0x85, CHR 0xA0])"

definition strip :: "string \<Rightarrow> string" where
  "strip s = rev (dropWhile isspace (rev (dropWhile isspace s)))"

text \<open>
  \<^verbatim>\<open>str.lower\<close>: the capital letters are \<^verbatim>\<open>A\<close> to \<^verbatim>\<open>Z\<close> and the code points 192 to 222
  other than the multiplication sign 215.
\<close>

definition lower_char :: "char \<Rightarrow> char" where
  "lower_char c =
     (let n = (of_char c :: nat)
      in if (65 \<le> n \<and> n \<le> 90) \<or> (192 \<le> n \<and> n \<le> 222 \<and> n \<noteq> 215)
         then char_of (n + 32) else c)"

definition lower :: "string \<Rightarrow> string" where
  "lower s = map lower_char s"

text \<open>The decimal digits \<^verbatim>\<open>0\<close> to \<^verbatim>\<open>9\<close>.\<close>

definition decimal :: "char \<Rightarrow> bool" where
  "decimal c = (let n = (of_char c :: nat) in 48 \<le> n \<and> n \<le> 57)"

text \<open>
  \<^verbatim>\<open>str.isdigit\<close>: every character is a digit and there is at least one. Python counts
  as digits the decimal digits and, below 256, the superscripts two, three and one (code
  points 178, 179 and 185).
\<close>

definition digito :: "char \<Rightarrow> bool" where
  "digito c = (decimal c \<or> c \<in> set [CHR 0xB2, CHR 0xB3, CHR 0xB9])"

definition isdigit :: "string \<Rightarrow> bool" where
  "isdigit s = (s \<noteq> [] \<and> list_all digito s)"

text \<open>
  \<^verbatim>\<open>int(s)\<close>, for a string without surrounding white space that \<open>isdigit\<close> accepts, which
  is how the program calls it: the number written when every character is a decimal digit,
  and \<^verbatim>\<open>ValueError\<close> otherwise, a superscript being no decimal digit. The limit that recent
  versions of Python put on the number of digits is not modelled.
\<close>

definition valor_decimal :: "string \<Rightarrow> int" where
  "valor_decimal s = foldl (\<lambda>n c. 10 * n + (int (of_char c) - 48)) 0 s"

definition int_py :: "string \<Rightarrow> erro + int" where
  "int_py s =
     (if s \<noteq> [] \<and> list_all decimal s then Inr (valor_decimal s) else Inl ValueError)"

text \<open>\<^verbatim>\<open>q in s\<close> for strings: \<open>q\<close> occurs in \<open>s\<close> as a contiguous piece.\<close>

fun contem :: "string \<Rightarrow> string \<Rightarrow> bool" where
  "contem q [] = (q = [])"
| "contem q (c # cs) = (take (length q) (c # cs) = q \<or> contem q cs)"

text \<open>The test \<^verbatim>\<open>input(...).strip().lower() in ("s", "sim")\<close> of Edit and Delete.\<close>

definition afirmativo :: "string \<Rightarrow> bool" where
  "afirmativo s = (lower (strip s) \<in> set [''s'', ''sim''])"

definition parse_prazo :: "biblioteca \<Rightarrow> string \<Rightarrow> instante option" where
  "parse_prazo lib s = (if s = [] then None else strptime lib (strip s))"

subsection \<open>Persistence\<close>

text \<open>\<^verbatim>\<open>d.pop(k, None)\<close>: the dictionary without the key \<open>k\<close>.\<close>

definition pop :: "string \<Rightarrow> (string \<times> json) list \<Rightarrow> (string \<times> json) list" where
  "pop k d = filter (\<lambda>kv. fst kv \<noteq> k) d"

text \<open>Lines 98 and 99, for one record: \<^verbatim>\<open>t.pop("tipo", None)\<close>.\<close>

definition migrar :: "tarefa \<Rightarrow> tarefa" where
  "migrar t = t\<lparr>outros := pop ''tipo'' (outros t)\<rparr>"

definition carregar_tarefas :: "mundo \<Rightarrow> tarefa list" where
  "carregar_tarefas w =
     (case arquivo w of
        None \<Rightarrow> []
      | Some Malformado \<Rightarrow> []
      | Some (Documento tarefas) \<Rightarrow> map migrar tarefas)"

definition salvar_tarefas :: "tarefa list \<Rightarrow> mundo \<Rightarrow> mundo" where
  "salvar_tarefas tarefas w =
     w\<lparr>arquivo := Some (Documento tarefas), eventos := eventos w @ [Salvou tarefas]\<rparr>"

definition print :: "mensagem \<Rightarrow> mundo \<Rightarrow> mundo" where
  "print m w = w\<lparr>eventos := eventos w @ [Imprimiu m]\<rparr>"

subsection \<open>The expiry sweep\<close>

text \<open>Lines 122 to 127: the deadline of a task as a timestamp, if it has one that parses.\<close>

definition prazo_de :: "biblioteca \<Rightarrow> tarefa \<Rightarrow> datetime option" where
  "prazo_de lib t =
     (case prazo t of
        None \<Rightarrow> None
      | Some s \<Rightarrow> if s = [] then None else fromisoformat lib s)"

text \<open>
  Line 129, \<^verbatim>\<open>prazo and prazo <= agora_dt\<close>: a \<^verbatim>\<open>datetime\<close> object is always true, and
  Python refuses to compare an aware one with the clock, which is naive.
\<close>

definition vencida :: "biblioteca \<Rightarrow> instante \<Rightarrow> tarefa \<Rightarrow> erro + bool" where
  "vencida lib agora_dt t =
     (case prazo_de lib t of
        None \<Rightarrow> Inr False
      | Some (Naive p) \<Rightarrow> Inr (p \<le> agora_dt)
      | Some (Aware p) \<Rightarrow> Inl TypeError)"

text \<open>The loop of lines 121 to 132, with its two accumulators.\<close>

fun varrer ::
  "biblioteca \<Rightarrow> instante \<Rightarrow> tarefa list \<Rightarrow> tarefa list \<Rightarrow> tarefa list
     \<Rightarrow> erro + tarefa list \<times> tarefa list" where
  "varrer lib agora_dt [] restantes removidas = Inr (restantes, removidas)"
| "varrer lib agora_dt (t # ts) restantes removidas =
     (case vencida lib agora_dt t of
        Inl e \<Rightarrow> Inl e
      | Inr v \<Rightarrow>
          if v then varrer lib agora_dt ts restantes (removidas @ [t])
          else varrer lib agora_dt ts (restantes @ [t]) removidas)"

text \<open>
  The sweep returns the world it leaves, or raises in its loop, before it has saved or
  printed anything.
\<close>

definition remover_vencidas ::
  "biblioteca \<Rightarrow> instante \<Rightarrow> bool \<Rightarrow> mundo \<Rightarrow> erro + mundo" where
  "remover_vencidas lib agora_dt notificar w =
     (let tarefas = carregar_tarefas w
      in case varrer lib agora_dt tarefas [] [] of
           Inl e \<Rightarrow> Inl e
         | Inr (restantes, removidas) \<Rightarrow>
             if removidas \<noteq> []
             then (let w1 = salvar_tarefas restantes w
                   in if notificar
                      then Inr (foldl (\<lambda>v r. print (AutoRemovida (take 8 (id_tarefa r))
                                                     (titulo r)) v)
                                  w1 removidas)
                      else Inr w1)
             else Inr w)"

subsection \<open>Create\<close>

text \<open>
  The result is \<open>Inr\<close> of the world when the function returns and \<open>Inl\<close> of the exception
  when it raises; it can raise only at line 150, before it has printed or saved anything.
\<close>

definition criar_tarefa_interativa ::
  "biblioteca \<Rightarrow> string \<Rightarrow> instante \<Rightarrow> string \<Rightarrow> string \<Rightarrow> string \<Rightarrow> string
     \<Rightarrow> mundo \<Rightarrow> erro + mundo" where
  "criar_tarefa_interativa lib novo_id agora_dt titulo_in descricao_in qtd_in prazo_in w =
     (let titulo_s = strip titulo_in
      in if titulo_s = [] then Inr (print TituloObrigatorio w)
         else
          (let descricao_s = strip descricao_in;
               qtd_raw = strip qtd_in
           in case (if isdigit qtd_raw then map_sum id Some (int_py qtd_raw) else Inr None) of
                Inl e \<Rightarrow> Inl e
              | Inr quantidade_v \<Rightarrow>
                 (let prazo_raw = strip prazo_in;
                      prazo_v = parse_prazo lib prazo_raw
                  in if prazo_raw \<noteq> [] \<and> prazo_v = None
                     then Inr (print FormatoDataInvalido w)
                     else
                      (let tarefa =
                             \<lparr>id_tarefa = novo_id, titulo = titulo_s, descricao = descricao_s,
                              quantidade = quantidade_v,
                              prazo = map_option (isoformat lib) prazo_v,
                              concluida = False, criado_em = isoformat lib agora_dt,
                              ultimo_tempo_seg = 0, total_tempo_seg = 0, outros = []\<rparr>;
                           tarefas = carregar_tarefas w @ [tarefa]
                       in Inr (print (TarefaCriada (take 8 novo_id))
                                 (salvar_tarefas tarefas w))))))"

subsection \<open>Selection\<close>

text \<open>
  The function returns the task selected, if any, or raises at line 227, after it has
  printed the list of matches; the world is the one it leaves in either case.
\<close>

definition selecionar_tarefa ::
  "string \<Rightarrow> string \<Rightarrow> mundo \<Rightarrow> (erro + tarefa option) \<times> mundo" where
  "selecionar_tarefa q_in idx_in w =
     (let tarefas = carregar_tarefas w;
          q = lower (strip q_in)
      in if q = [] then (Inr None, w)
         else
          (let encontrados =
                 filter (\<lambda>t. contem q (id_tarefa t) \<or> contem q (lower (titulo t))) tarefas
           in if encontrados = [] then (Inr None, print NenhumaTarefaEncontrada w)
              else if length encontrados = 1 then (Inr (Some (hd encontrados)), w)
              else
               (let w1 = foldl (\<lambda>v (i, t). print (Opcao i (take 8 (id_tarefa t)) (titulo t)) v)
                           w (zip [1 ..< Suc (length encontrados)] encontrados);
                    idx = strip idx_in
                in if isdigit idx
                   then (case int_py idx of
                           Inl e \<Rightarrow> (Inl e, w1)
                         | Inr n \<Rightarrow>
                             (Inr (if 0 < n \<and> n \<le> int (length encontrados)
                                   then Some (encontrados ! nat (n - 1)) else None), w1))
                   else (Inr None, w1))))"

subsection \<open>Edit, delete, toggle, timer\<close>

text \<open>
  Each of the four operations starts with \<^verbatim>\<open>t = selecionar_tarefa()\<close> and returns when no
  task was selected. Here \<open>sel\<close> is what the selection returned, and \<open>w\<close> is the world at
  the moment the operation reloads the collection; the two are independent because the
  user is prompted in between.
\<close>

text \<open>
  Lines 236 to 261: the fields of the selected task after the user's answers, or the
  exception of line 248.
\<close>

definition editar_campos ::
  "biblioteca \<Rightarrow> tarefa \<Rightarrow> string \<Rightarrow> string \<Rightarrow> string \<Rightarrow> string \<Rightarrow> string
     \<Rightarrow> erro + tarefa" where
  "editar_campos lib t titulo_in descricao_in qtd_in prazo_in concl_in =
     (let titulo_s = strip titulo_in;
          t1 = (if titulo_s \<noteq> [] then t\<lparr>titulo := titulo_s\<rparr> else t);
          descricao_s = strip descricao_in;
          t2 = (if descricao_s \<noteq> [] then t1\<lparr>descricao := descricao_s\<rparr> else t1);
          qtd = strip qtd_in
      in case (if qtd = [] then Inr t2
               else if isdigit qtd
                    then map_sum id (\<lambda>n. t2\<lparr>quantidade := Some n\<rparr>) (int_py qtd)
                    else Inr (t2\<lparr>quantidade := None\<rparr>)) of
           Inl e \<Rightarrow> Inl e
         | Inr t3 \<Rightarrow>
            (let prazo_raw = strip prazo_in;
                 t4 = (if prazo_raw \<noteq> []
                       then (case parse_prazo lib prazo_raw of
                               Some p \<Rightarrow> t3\<lparr>prazo := Some (isoformat lib p)\<rparr>
                             | None \<Rightarrow> t3)
                       else t3)
             in Inr (if afirmativo concl_in then t4\<lparr>concluida := True\<rparr>
                     else t4\<lparr>concluida := False\<rparr>)))"

text \<open>Lines 264 to 267: the first record with the id of \<open>t\<close> is replaced by \<open>t\<close>.\<close>

fun substituir :: "tarefa \<Rightarrow> tarefa list \<Rightarrow> tarefa list" where
  "substituir t [] = []"
| "substituir t (item # resto) =
     (if id_tarefa item = id_tarefa t then t # resto else item # substituir t resto)"

definition editar_tarefa_interativa ::
  "biblioteca \<Rightarrow> tarefa option \<Rightarrow> string \<Rightarrow> string \<Rightarrow> string \<Rightarrow> string \<Rightarrow> string
     \<Rightarrow> mundo \<Rightarrow> erro + mundo" where
  "editar_tarefa_interativa lib sel titulo_in descricao_in qtd_in prazo_in concl_in w =
     (case sel of
        None \<Rightarrow> Inr w
      | Some t \<Rightarrow>
          (case editar_campos lib t titulo_in descricao_in qtd_in prazo_in concl_in of
             Inl e \<Rightarrow> Inl e
           | Inr t' \<Rightarrow>
               (let tarefas = substituir t' (carregar_tarefas w)
                in Inr (print TarefaAtualizada (salvar_tarefas tarefas w)))))"

definition excluir_tarefa_interativa :: "tarefa option \<Rightarrow> string \<Rightarrow> mundo \<Rightarrow> mundo" where
  "excluir_tarefa_interativa sel conf_in w =
     (case sel of
        None \<Rightarrow> w
      | Some t \<Rightarrow>
          if afirmativo conf_in
          then (let tarefas = filter (\<lambda>x. id_tarefa x \<noteq> id_tarefa t) (carregar_tarefas w)
                in print TarefaExcluida (salvar_tarefas tarefas w))
          else w)"

text \<open>
  The loop of lines 290 to 295: \<open>Some\<close> of the collection with the first record of that id
  toggled, \<open>None\<close> when the loop ends without finding one.
\<close>

fun marcar_laco :: "string \<Rightarrow> tarefa list \<Rightarrow> tarefa list option" where
  "marcar_laco i [] = None"
| "marcar_laco i (item # resto) =
     (if id_tarefa item = i then Some (item\<lparr>concluida := \<not> concluida item\<rparr> # resto)
      else map_option ((#) item) (marcar_laco i resto))"

definition marcar_tarefa :: "tarefa option \<Rightarrow> mundo \<Rightarrow> mundo" where
  "marcar_tarefa sel w =
     (case sel of
        None \<Rightarrow> w
      | Some t \<Rightarrow>
          (case marcar_laco (id_tarefa t) (carregar_tarefas w) of
             None \<Rightarrow> w
           | Some tarefas \<Rightarrow> print EstadoAlterado (salvar_tarefas tarefas w)))"

text \<open>The loop of lines 312 to 320, in the same way.\<close>

fun cronometro_laco :: "string \<Rightarrow> int \<Rightarrow> tarefa list \<Rightarrow> tarefa list option" where
  "cronometro_laco i dur [] = None"
| "cronometro_laco i dur (item # resto) =
     (if id_tarefa item = i
      then Some (item\<lparr>ultimo_tempo_seg := dur,
                       total_tempo_seg := total_tempo_seg item + dur\<rparr> # resto)
      else map_option ((#) item) (cronometro_laco i dur resto))"

text \<open>
  \<open>entrada\<close> is the line typed at the start prompt (\<^verbatim>\<open>q\<close> cancels) and \<open>dur\<close> is
  \<^verbatim>\<open>int(time.time() - inicio)\<close>.
\<close>

definition iniciar_cronometro :: "tarefa option \<Rightarrow> string \<Rightarrow> int \<Rightarrow> mundo \<Rightarrow> mundo" where
  "iniciar_cronometro sel entrada dur w =
     (case sel of
        None \<Rightarrow> w
      | Some t \<Rightarrow>
          if lower (strip entrada) = ''q'' then w
          else
           (case cronometro_laco (id_tarefa t) dur (carregar_tarefas w) of
              None \<Rightarrow> w
            | Some tarefas \<Rightarrow>
                print (CronometroSalvo (dur div 60) (dur mod 60)) (salvar_tarefas tarefas w)))"

subsection \<open>One operation of the menu\<close>

text \<open>
  The operations of \<^verbatim>\<open>menu_principal\<close> that touch the store, each with the lines the user
  types and the values of the clock, and the expiry sweep. Edit, Delete, Toggle-Complete
  and the timer select their task with \<open>selecionar_tarefa\<close> on the store as it is, and then
  run on that store. The result is the exception raised, if any, and the world the
  operation leaves.
\<close>

datatype operacao =
    Criar string instante string string string string
  | Editar string string string string string string string
  | Excluir string string string
  | Marcar string string
  | Varrer instante bool
  | Cronometrar string string string int

text \<open>
  How Create, Edit and the sweep end: with the exception and the world as it was, since they
  raise before they print or save, or with the world they return.
\<close>

definition fim :: "mundo \<Rightarrow> erro + mundo \<Rightarrow> erro option \<times> mundo" where
  "fim w r = (case r of Inl e \<Rightarrow> (Some e, w) | Inr w' \<Rightarrow> (None, w'))"

fun executar :: "biblioteca \<Rightarrow> operacao \<Rightarrow> mundo \<Rightarrow> erro option \<times> mundo" where
  "executar lib (Criar novo_id agora_dt titulo_in descricao_in qtd_in prazo_in) w =
     fim w (criar_tarefa_interativa lib novo_id agora_dt titulo_in descricao_in qtd_in prazo_in w)"
| "executar lib (Editar q_in idx_in titulo_in descricao_in qtd_in prazo_in concl_in) w =
     (case selecionar_tarefa q_in idx_in w of
        (Inl e, w1) \<Rightarrow> (Some e, w1)
      | (Inr sel, w1) \<Rightarrow>
          fim w1 (editar_tarefa_interativa lib sel titulo_in descricao_in qtd_in prazo_in
                    concl_in w1))"
| "executar lib (Excluir q_in idx_in conf_in) w =
     (case selecionar_tarefa q_in idx_in w of
        (Inl e, w1) \<Rightarrow> (Some e, w1)
      | (Inr sel, w1) \<Rightarrow> (None, excluir_tarefa_interativa sel conf_in w1))"
| "executar lib (Marcar q_in idx_in) w =
     (case selecionar_tarefa q_in idx_in w of
        (Inl e, w1) \<Rightarrow> (Some e, w1)
      | (Inr sel, w1) \<Rightarrow> (None, marcar_tarefa sel w1))"
| "executar lib (Varrer agora_dt notificar) w =
     fim w (remover_vencidas lib agora_dt notificar w)"
| "executar lib (Cronometrar q_in idx_in entrada dur) w =
     (case selecionar_tarefa q_in idx_in w of
        (Inl e, w1) \<Rightarrow> (Some e, w1)
      | (Inr sel, w1) \<Rightarrow> (None, iniciar_cronometro sel entrada dur w1))"

text \<open>
  What the operations take for granted of their parameters: the identifier made by
  \<^verbatim>\<open>uuid4\<close> is not the id of a stored task, and the duration measured is not negative.
\<close>

fun admissivel :: "operacao \<Rightarrow> mundo \<Rightarrow> bool" where
  "admissivel (Criar novo_id agora_dt titulo_in descricao_in qtd_in prazo_in) w =
     (novo_id \<notin> set (map id_tarefa (carregar_tarefas w)))"
| "admissivel (Cronometrar q_in idx_in entrada dur) w = (0 \<le> dur)"
| "admissivel opr w = True"

subsection \<open>An instance of the library and a store, for evaluating examples\<close>

text \<open>
  The three \<^verbatim>\<open>datetime\<close> functions on the timestamps of the examples, which are numbered
  in their order: 10 is 2020-01-01 00:00, 20 is 2024-06-15 12:00 and 30 is
  2030-12-31 23:59. The first of them written with the offset of UTC gives an aware
  object. Every other string fails to parse. The theorems below hold for every
  \<open>biblioteca\<close>; this one only serves to evaluate them on concrete input.
\<close>

definition lib_ex :: biblioteca where
  "lib_ex =
     \<lparr>strptime = map_of [(''2020-01-01 00:00'', 10), (''2024-06-15 12:00'', 20),
                          (''2030-12-31 23:59'', 30)],
      fromisoformat = map_of [(''2020-01-01T00:00:00'', Naive 10),
                               (''2024-06-15T12:00:00'', Naive 20),
                               (''2030-12-31T23:59:00'', Naive 30),
                               (''2020-01-01T00:00:00+00:00'', Aware 10)],
      isoformat = (\<lambda>d. if d = 10 then ''2020-01-01T00:00:00''
                       else if d = 20 then ''2024-06-15T12:00:00''
                       else ''2030-12-31T23:59:00'')\<rparr>"

definition tarefa_leite :: tarefa where
  "tarefa_leite =
     \<lparr>id_tarefa = ''3f2a9c1e-aaaa'', titulo = ''Buy milk'', descricao = [],
      quantidade = None, prazo = Some ''2020-01-01T00:00:00'', concluida = False,
      criado_em = ''2019-12-30T08:15:00'', ultimo_tempo_seg = 0, total_tempo_seg = 0,
      outros = []\<rparr>"

definition tarefa_relatorio :: tarefa where
  "tarefa_relatorio =
     \<lparr>id_tarefa = ''7b41d0e2-bbbb'', titulo = ''Write report'', descricao = ''draft'',
      quantidade = Some 3, prazo = None, concluida = False,
      criado_em = ''2024-06-01T09:00:00'', ultimo_tempo_seg = 125, total_tempo_seg = 125,
      outros = []\<rparr>"

definition tarefa_viagem :: tarefa where
  "tarefa_viagem =
     \<lparr>id_tarefa = ''c09e55a7-cccc'', titulo = ''Book trip'', descricao = [],
      quantidade = None, prazo = Some ''2030-12-31T23:59:00'', concluida = True,
      criado_em = ''2024-06-02T10:30:00'', ultimo_tempo_seg = 0, total_tempo_seg = 40,
      outros = []\<rparr>"

definition mundo_ex :: mundo where
  "mundo_ex =
     \<lparr>arquivo = Some (Documento [tarefa_leite, tarefa_relatorio, tarefa_viagem]),
      eventos = []\<rparr>"

definition mundo_sem_prazo :: mundo where
  "mundo_sem_prazo =
     \<lparr>arquivo = Some (Documento [tarefa_relatorio, tarefa_viagem]), eventos = []\<rparr>"

definition tarefa_fuso :: tarefa where
  "tarefa_fuso =
     \<lparr>id_tarefa = ''e1f2a3b4-ffff'', titulo = ''Call home'', descricao = [],
      quantidade = None, prazo = Some ''2020-01-01T00:00:00+00:00'', concluida = False,
      criado_em = ''2019-12-31T18:00:00'', ultimo_tempo_seg = 0, total_tempo_seg = 0,
      outros = []\<rparr>"


definition tarefa_colorida :: tarefa where
  "tarefa_colorida =
     \<lparr>id_tarefa = ''5d0c7a91-dddd'', titulo = ''Paint fence'', descricao = [],
      quantidade = None, prazo = None, concluida = False,
      criado_em = ''2024-06-03T11:00:00'', ultimo_tempo_seg = 0, total_tempo_seg = 0,
      outros = [(''tipo'', JStr ''casa''), (''cor'', JStr ''azul'')]\<rparr>"

subsection \<open>Loading, saving and printing\<close>

lemma pop_pop: "pop k (pop k d) = pop k d"
  by (simp add: pop_def)

lemma migrar_migrar: "migrar (migrar t) = migrar t"
  by (simp add: migrar_def pop_pop)

lemma carregar_salvar: "carregar_tarefas (salvar_tarefas ts w) = map migrar ts"
  by (simp add: carregar_tarefas_def salvar_tarefas_def)

lemma carregar_print: "carregar_tarefas (print m w) = carregar_tarefas w"
  by (simp add: carregar_tarefas_def print_def)

lemma migrar_carregados: "t \<in> set (carregar_tarefas w) \<Longrightarrow> migrar t = t"
  by (auto simp: carregar_tarefas_def migrar_migrar split: option.splits documento.splits)

lemma map_migrar_id: "set ts \<subseteq> set (carregar_tarefas w) \<Longrightarrow> map migrar ts = ts"
  by (induction ts) (auto simp: migrar_carregados)

lemma carregar_foldl_print:
  "carregar_tarefas (foldl (\<lambda>v r. print (f r) v) w rs) = carregar_tarefas w"
  by (induction rs arbitrary: w) (simp_all add: carregar_print)

subsection \<open>The expiry sweep\<close>

lemma vencida_Inl: "vencida lib agora_dt t = Inl e \<Longrightarrow> e = TypeError"
  by (auto simp: vencida_def split: option.splits datetime.splits)

lemma vencida_Inr:
  assumes "\<forall>p. prazo_de lib t \<noteq> Some (Aware p)"
  shows "\<exists>v. vencida lib agora_dt t = Inr v"
proof (cases "prazo_de lib t")
  case None
  then have "vencida lib agora_dt t = Inr False"
    by (simp add: vencida_def)
  then show ?thesis ..
next
  case (Some d)
  with assms obtain p where "d = Naive p"
    by (cases d) simp_all
  with Some have "vencida lib agora_dt t = Inr (p \<le> agora_dt)"
    by (simp add: vencida_def)
  then show ?thesis ..
qed

lemma varrer_Inr:
  "varrer lib agora_dt ts restantes removidas = Inr (rs, ms) \<Longrightarrow>
     rs = restantes @ filter (\<lambda>t. vencida lib agora_dt t \<noteq> Inr True) ts
     \<and> ms = removidas @ filter (\<lambda>t. vencida lib agora_dt t = Inr True) ts"
proof (induction ts arbitrary: restantes removidas)
  case Nil
  then show ?case by simp
next
  case (Cons t ts)
  show ?case
  proof (cases "vencida lib agora_dt t")
    case (Inl e)
    with Cons.prems show ?thesis by simp
  next
    case (Inr v)
    with Cons.prems Cons.IH [of restantes "removidas @ [t]"] Cons.IH [of "restantes @ [t]" removidas]
    show ?thesis
      by (cases v) simp_all
  qed
qed

lemma varrer_retorna:
  "\<forall>t \<in> set ts. \<forall>p. prazo_de lib t \<noteq> Some (Aware p) \<Longrightarrow>
     \<exists>r. varrer lib agora_dt ts restantes removidas = Inr r"
proof (induction ts arbitrary: restantes removidas)
  case Nil
  then show ?case by simp
next
  case (Cons t ts)
  from Cons.prems have "\<forall>p. prazo_de lib t \<noteq> Some (Aware p)"
    by simp
  from vencida_Inr [OF this] obtain v where "vencida lib agora_dt t = Inr v"
    by blast
  with Cons show ?case
    by simp
qed

lemma varrer_levanta:
  "\<exists>t \<in> set ts. \<exists>p. prazo_de lib t = Some (Aware p) \<Longrightarrow>
     varrer lib agora_dt ts restantes removidas = Inl TypeError"
proof (induction ts arbitrary: restantes removidas)
  case Nil
  then show ?case by simp
next
  case (Cons t ts)
  show ?case
  proof (cases "\<exists>p. prazo_de lib t = Some (Aware p)")
    case True
    then show ?thesis
      by (auto simp: vencida_def)
  next
    case False
    with Cons.prems have "\<exists>t \<in> set ts. \<exists>p. prazo_de lib t = Some (Aware p)"
      by auto
    from Cons.IH [OF this] show ?thesis
      by (auto split: sum.splits dest: vencida_Inl)
  qed
qed


lemma carregar_remover_vencidas:
  assumes "remover_vencidas lib agora_dt notificar w = Inr w'"
  shows "carregar_tarefas w' =
           filter (\<lambda>t. vencida lib agora_dt t \<noteq> Inr True) (carregar_tarefas w)"
proof -
  from assms obtain rs ms where v: "varrer lib agora_dt (carregar_tarefas w) [] [] = Inr (rs, ms)"
    by (auto simp: remover_vencidas_def Let_def split: sum.splits)
  from varrer_Inr [OF v]
  have rs: "rs = filter (\<lambda>t. vencida lib agora_dt t \<noteq> Inr True) (carregar_tarefas w)"
    and ms: "ms = filter (\<lambda>t. vencida lib agora_dt t = Inr True) (carregar_tarefas w)"
    by simp_all
  show ?thesis
  proof (cases "ms = []")
    case True
    with ms have "filter (\<lambda>t. vencida lib agora_dt t = Inr True) (carregar_tarefas w) = []"
      by simp
    then have "filter (\<lambda>t. vencida lib agora_dt t \<noteq> Inr True) (carregar_tarefas w)
                    = carregar_tarefas w"
      by (simp add: filter_empty_conv filter_id_conv)
    with assms v True show ?thesis
      by (simp add: remover_vencidas_def)
  next
    case False
    have "map migrar rs = rs"
      unfolding rs by (rule map_migrar_id) auto
    with assms v False rs show ?thesis
      by (auto simp: remover_vencidas_def Let_def carregar_foldl_print carregar_salvar
            split: if_splits)
  qed
qed


lemma remover_vencidas_levanta:
  "\<exists>t \<in> set (carregar_tarefas w). \<exists>p. prazo_de lib t = Some (Aware p) \<Longrightarrow>
     remover_vencidas lib agora_dt notificar w = Inl TypeError"
  by (simp add: remover_vencidas_def varrer_levanta)


lemmas ex_defs = lib_ex_def tarefa_leite_def tarefa_relatorio_def tarefa_viagem_def
  mundo_ex_def mundo_sem_prazo_def

lemma carregar_mundo_ex:
  "carregar_tarefas mundo_ex = [tarefa_leite, tarefa_relatorio, tarefa_viagem]"
  by (simp add: carregar_tarefas_def migrar_def pop_def ex_defs)

lemma vencidas_ex:
  "vencida lib_ex 20 tarefa_leite = Inr True \<and> vencida lib_ex 20 tarefa_relatorio = Inr False
   \<and> vencida lib_ex 20 tarefa_viagem = Inr False \<and> vencida lib_ex 20 tarefa_fuso = Inl TypeError"
  by (simp add: vencida_def prazo_de_def ex_defs tarefa_fuso_def)



text \<open>
  C8. When no task of the collection is expired at the current time, the sweep saves
  nothing and prints nothing: it returns the world it was given, or, when a deadline of the
  collection parses to a timestamp with a UTC offset, raises before any save.
\<close>

theorem sem_vencidas_sem_escrita:
  assumes "\<forall>t \<in> set (carregar_tarefas w). vencida lib agora_dt t \<noteq> Inr True"
  shows "remover_vencidas lib agora_dt notificar w =
           (if \<exists>t \<in> set (carregar_tarefas w). \<exists>p. prazo_de lib t = Some (Aware p)
            then Inl TypeError else Inr w)"
proof (cases "\<exists>t \<in> set (carregar_tarefas w). \<exists>p. prazo_de lib t = Some (Aware p)")
  case True
  then show ?thesis
    by (simp add: remover_vencidas_levanta)
next
  case False
  then obtain r where r: "varrer lib agora_dt (carregar_tarefas w) [] [] = Inr r"
    using varrer_retorna [of "carregar_tarefas w" lib agora_dt "[]" "[]"] by auto
  obtain rs ms where "r = (rs, ms)"
    by (cases r)
  with r varrer_Inr [of lib agora_dt "carregar_tarefas w" "[]" "[]" rs ms] assms
  have "varrer lib agora_dt (carregar_tarefas w) [] [] = Inr (rs, [])"
    by (simp add: filter_empty_conv)
  with False show ?thesis
    by (simp add: remover_vencidas_def)
qed

theorem sem_vencidas_sem_escrita_witness:
  "list_all (\<lambda>t. vencida lib_ex 20 t \<noteq> Inr True) (carregar_tarefas mundo_sem_prazo)
   \<and> remover_vencidas lib_ex 20 True mundo_sem_prazo = Inr mundo_sem_prazo"
proof (rule conjI)
  have c: "carregar_tarefas mundo_sem_prazo = [tarefa_relatorio, tarefa_viagem]"
    by (simp add: carregar_tarefas_def migrar_def pop_def ex_defs)
  show h: "list_all (\<lambda>t. vencida lib_ex 20 t \<noteq> Inr True) (carregar_tarefas mundo_sem_prazo)"
    by (simp add: c vencidas_ex)
  then have a: "\<forall>t \<in> set (carregar_tarefas mundo_sem_prazo). vencida lib_ex 20 t \<noteq> Inr True"
    by (simp add: list_all_iff)
  have n: "\<not> (\<exists>t \<in> set (carregar_tarefas mundo_sem_prazo).
                \<exists>p. prazo_de lib_ex t = Some (Aware p))"
    by (simp add: c) (simp add: prazo_de_def ex_defs)
  from sem_vencidas_sem_escrita [OF a, of True] n
  show "remover_vencidas lib_ex 20 True mundo_sem_prazo = Inr mundo_sem_prazo"
    by simp
qed

subsection \<open>The round trip through the file\<close>

lemmas str_defs = strip_def isspace_def isdigit_def digito_def decimal_def int_py_def
  valor_decimal_def

lemma nao_afirmativo_n: "\<not> afirmativo ''n''"
  by code_simp

text \<open>
  C3, as the code has it. Saving a collection and loading it gives the collection saved
  with the key \<^verbatim>\<open>"tipo"\<close> removed from every record: the nine fields of the schema are the
  same, and of the other keys exactly those different from \<^verbatim>\<open>"tipo"\<close> are kept, with their
  values and in their order.
\<close>

theorem salvar_carregar:
  "carregar_tarefas (salvar_tarefas ts w) = map migrar ts
   \<and> (\<forall>t. id_tarefa (migrar t) = id_tarefa t \<and> titulo (migrar t) = titulo t
          \<and> descricao (migrar t) = descricao t \<and> quantidade (migrar t) = quantidade t
          \<and> prazo (migrar t) = prazo t \<and> concluida (migrar t) = concluida t
          \<and> criado_em (migrar t) = criado_em t
          \<and> ultimo_tempo_seg (migrar t) = ultimo_tempo_seg t
          \<and> total_tempo_seg (migrar t) = total_tempo_seg t
          \<and> outros (migrar t) = filter (\<lambda>kv. fst kv \<noteq> ''tipo'') (outros t))"
  by (simp add: carregar_salvar migrar_def pop_def)

theorem salvar_carregar_witness:
  "carregar_tarefas (salvar_tarefas [tarefa_colorida, tarefa_viagem] mundo_ex) =
     [tarefa_colorida\<lparr>outros := [(''cor'', JStr ''azul'')]\<rparr>, tarefa_viagem]"
proof -
  have "carregar_tarefas (salvar_tarefas [tarefa_colorida, tarefa_viagem] mundo_ex) =
          map migrar [tarefa_colorida, tarefa_viagem]"
    by (rule salvar_carregar [THEN conjunct1])
  also have "\<dots> = [tarefa_colorida\<lparr>outros := [(''cor'', JStr ''azul'')]\<rparr>, tarefa_viagem]"
    by (simp add: migrar_def pop_def tarefa_colorida_def tarefa_viagem_def)
  finally show ?thesis .
qed

text \<open>
  C3, as the claim has it, fails: the key \<^verbatim>\<open>"cor"\<close> is not in the schema, and a record
  saved with it still has it after the load.
\<close>

theorem campo_extra_sobrevive:
  "map outros (carregar_tarefas (salvar_tarefas [tarefa_colorida] mundo_ex)) =
     [[(''cor'', JStr ''azul'')]]"
  by (simp add: carregar_tarefas_def salvar_tarefas_def migrar_def pop_def tarefa_colorida_def)

subsection \<open>Create\<close>

lemma criar_titulo_vazio:
  "strip titulo_in = [] \<Longrightarrow>
     criar_tarefa_interativa lib novo_id agora_dt titulo_in descricao_in qtd_in prazo_in w =
       Inr (print TituloObrigatorio w)"
  by (simp add: criar_tarefa_interativa_def)

lemma criar_prazo_invalido:
  assumes "strip titulo_in \<noteq> []" and "strip prazo_in \<noteq> []"
    and "parse_prazo lib (strip prazo_in) = None"
  shows "criar_tarefa_interativa lib novo_id agora_dt titulo_in descricao_in qtd_in prazo_in w =
           (if isdigit (strip qtd_in) \<and> \<not> list_all decimal (strip qtd_in)
            then Inl ValueError else Inr (print FormatoDataInvalido w))"
  using assms
  by (auto simp: criar_tarefa_interativa_def Let_def int_py_def isdigit_def)

text \<open>
  C5. When the title is empty after trimming, Create returns with the file as it was, so
  with the same collection, after printing that the title is required. When the deadline
  typed is not empty after trimming and \<open>parse_prazo\<close> rejects it, Create fails: either it
  returns with the file as it was after printing one message (that the date format is
  invalid or, if the title was empty too, that the title is required), or it raises
  \<^verbatim>\<open>ValueError\<close> at the quantity, having printed and saved nothing. No branch saves.
\<close>

theorem criar_validacao:
  "(strip titulo_in = [] \<longrightarrow>
      (\<exists>w'. criar_tarefa_interativa lib novo_id agora_dt titulo_in descricao_in qtd_in prazo_in w
               = Inr w'
            \<and> arquivo w' = arquivo w \<and> carregar_tarefas w' = carregar_tarefas w
            \<and> eventos w' = eventos w @ [Imprimiu TituloObrigatorio]))
   \<and> (strip prazo_in \<noteq> [] \<and> parse_prazo lib (strip prazo_in) = None \<longrightarrow>
      (\<exists>w'. criar_tarefa_interativa lib novo_id agora_dt titulo_in descricao_in qtd_in prazo_in w
               = Inr w'
            \<and> arquivo w' = arquivo w \<and> carregar_tarefas w' = carregar_tarefas w
            \<and> eventos w' = eventos w @ [Imprimiu (if strip titulo_in = [] then TituloObrigatorio
                                                  else FormatoDataInvalido)])
      \<or> criar_tarefa_interativa lib novo_id agora_dt titulo_in descricao_in qtd_in prazo_in w
           = Inl ValueError)"
proof (intro conjI impI)
  assume "strip titulo_in = []"
  then show "\<exists>w'. criar_tarefa_interativa lib novo_id agora_dt titulo_in descricao_in qtd_in
                     prazo_in w = Inr w'
            \<and> arquivo w' = arquivo w \<and> carregar_tarefas w' = carregar_tarefas w
            \<and> eventos w' = eventos w @ [Imprimiu TituloObrigatorio]"
    by (simp add: criar_titulo_vazio carregar_print) (simp add: print_def)
next
  assume p: "strip prazo_in \<noteq> [] \<and> parse_prazo lib (strip prazo_in) = None"
  show "(\<exists>w'. criar_tarefa_interativa lib novo_id agora_dt titulo_in descricao_in qtd_in prazo_in w
               = Inr w'
            \<and> arquivo w' = arquivo w \<and> carregar_tarefas w' = carregar_tarefas w
            \<and> eventos w' = eventos w @ [Imprimiu (if strip titulo_in = [] then TituloObrigatorio
                                                  else FormatoDataInvalido)])
      \<or> criar_tarefa_interativa lib novo_id agora_dt titulo_in descricao_in qtd_in prazo_in w
           = Inl ValueError"
  proof (cases "strip titulo_in = []")
    case True
    then show ?thesis
      by (simp add: criar_titulo_vazio carregar_print) (simp add: print_def)
  next
    case False
    with p show ?thesis
      by (simp add: criar_prazo_invalido carregar_print) (simp add: print_def)
  qed
qed

theorem criar_validacao_witness:
  "strip ''   '' = []
   \<and> criar_tarefa_interativa lib_ex ''9e8d7c6b-eeee'' 20 ''   '' ''x'' ''2'' [] mundo_ex
       = Inr (mundo_ex\<lparr>eventos := [Imprimiu TituloObrigatorio]\<rparr>)
   \<and> strip ''tomorrow'' \<noteq> [] \<and> parse_prazo lib_ex (strip ''tomorrow'') = None
   \<and> criar_tarefa_interativa lib_ex ''9e8d7c6b-eeee'' 20 ''Buy milk'' [] [] ''tomorrow'' mundo_ex
       = Inr (mundo_ex\<lparr>eventos := [Imprimiu FormatoDataInvalido]\<rparr>)"
proof -
  have h1: "strip ''   '' = []"
    by (simp add: str_defs)
  have h2: "strip ''tomorrow'' \<noteq> [] \<and> parse_prazo lib_ex (strip ''tomorrow'') = None"
    by (simp add: str_defs parse_prazo_def lib_ex_def)
  have h3: "strip ''Buy milk'' \<noteq> []"
    by (simp add: str_defs)
  have h4: "criar_tarefa_interativa lib_ex ''9e8d7c6b-eeee'' 20 ''Buy milk'' [] [] ''tomorrow''
              mundo_ex \<noteq> Inl ValueError"
    using h2 h3 by (simp add: criar_prazo_invalido) (simp add: str_defs)
  have e: "eventos mundo_ex = []"
    by (simp add: mundo_ex_def)
  have m: "w' = mundo_ex\<lparr>eventos := es\<rparr>" if "arquivo w' = arquivo mundo_ex" "eventos w' = es"
    for w' es
    using that by (cases w') (simp add: mundo_ex_def)
  show ?thesis
    using h1 h2 h3 h4 e
      criar_validacao [where titulo_in = "''   ''" and lib = lib_ex and novo_id = "''9e8d7c6b-eeee''"
        and agora_dt = 20 and descricao_in = "''x''" and qtd_in = "''2''" and prazo_in = "[]"
        and w = mundo_ex]
      criar_validacao [where titulo_in = "''Buy milk''" and lib = lib_ex
        and novo_id = "''9e8d7c6b-eeee''" and agora_dt = 20 and descricao_in = "[]"
        and qtd_in = "[]" and prazo_in = "''tomorrow''" and w = mundo_ex]
    by (auto intro: m)
qed

subsection \<open>Edit\<close>

text \<open>Edit raises exactly when the quantity typed passes \<open>isdigit\<close> and is no decimal number.\<close>

lemma editar_campos_retorna:
  "(\<exists>t'. editar_campos lib t ti di qi pi ci = Inr t') \<longleftrightarrow>
     (isdigit (strip qi) \<longrightarrow> list_all decimal (strip qi))"
  by (auto simp: editar_campos_def Let_def int_py_def isdigit_def split: sum.splits)

lemma id_editar_campos:
  "editar_campos lib t ti di qi pi ci = Inr t' \<Longrightarrow> id_tarefa t' = id_tarefa t"
  by (auto simp: editar_campos_def Let_def int_py_def split: sum.splits option.splits if_splits)

lemma total_editar_campos:
  "editar_campos lib t ti di qi pi ci = Inr t' \<Longrightarrow> total_tempo_seg t' = total_tempo_seg t"
  by (auto simp: editar_campos_def Let_def int_py_def split: sum.splits option.splits if_splits)

lemma substituir_distinct:
  "distinct (map id_tarefa ts) \<Longrightarrow>
     substituir t ts = map (\<lambda>v. if id_tarefa v = id_tarefa t then t else v) ts"
proof (induction ts)
  case Nil
  then show ?case by simp
next
  case (Cons a ts)
  show ?case
  proof (cases "id_tarefa a = id_tarefa t")
    case True
    with Cons.prems have "\<forall>v \<in> set ts. id_tarefa v \<noteq> id_tarefa t"
      by (metis distinct.simps(2) image_eqI list.simps(9) set_map)
    then have "map (\<lambda>v. if id_tarefa v = id_tarefa t then t else v) ts = ts"
      by (simp add: map_idI)
    with True show ?thesis by simp
  next
    case False
    with Cons show ?thesis by simp
  qed
qed

lemma afirmativo_iff:
  "afirmativo s \<longleftrightarrow> lower (strip s) = ''s'' \<or> lower (strip s) = ''sim''"
  by (simp add: afirmativo_def)

lemma editar_salva:
  "editar_campos lib t ti di qi pi ci = Inr t' \<Longrightarrow>
     editar_tarefa_interativa lib (Some t) ti di qi pi ci w =
       Inr (print TarefaAtualizada (salvar_tarefas (substituir t' (carregar_tarefas w)) w))"
  by (simp add: editar_tarefa_interativa_def)

lemma editar_campos_mantem:
  assumes "editar_campos lib t ti di qi pi ci = Inr t'"
  shows "strip ti = [] \<longrightarrow> titulo t' = titulo t"
    and "strip di = [] \<longrightarrow> descricao t' = descricao t"
    and "strip qi = [] \<longrightarrow> quantidade t' = quantidade t"
    and "strip pi = [] \<longrightarrow> prazo t' = prazo t"
    and "concluida t' \<longleftrightarrow> afirmativo ci"
  using assms
  by (auto simp: editar_campos_def Let_def int_py_def split: sum.splits option.splits if_splits)

text \<open>
  C7. An edit runs to its end exactly when the quantity typed does not make \<^verbatim>\<open>int\<close>
  raise, which is so in particular when it is empty. In the record that it then builds from
  the selected task, the title, the description, the quantity and the deadline are those
  of the task when the corresponding input is empty after trimming; the completion flag is
  true exactly when the answer, trimmed and in lower case, is \<^verbatim>\<open>s\<close> or \<^verbatim>\<open>sim\<close>,
  whatever it was before. In a collection with distinct ids, the collection after the edit
  is the collection before it with that record (as the load returns it) in the place of the
  record of the same id.
\<close>

theorem editar_mantem_campos:
  "((\<exists>t'. editar_campos lib t ti di qi pi ci = Inr t') \<longleftrightarrow>
      (isdigit (strip qi) \<longrightarrow> list_all decimal (strip qi)))
   \<and> (\<forall>t'. editar_campos lib t ti di qi pi ci = Inr t' \<longrightarrow>
        (strip ti = [] \<longrightarrow> titulo t' = titulo t)
        \<and> (strip di = [] \<longrightarrow> descricao t' = descricao t)
        \<and> (strip qi = [] \<longrightarrow> quantidade t' = quantidade t)
        \<and> (strip pi = [] \<longrightarrow> prazo t' = prazo t)
        \<and> (concluida t' \<longleftrightarrow> lower (strip ci) = ''s'' \<or> lower (strip ci) = ''sim'')
        \<and> (distinct (map id_tarefa (carregar_tarefas w)) \<longrightarrow>
             (\<exists>w'. editar_tarefa_interativa lib (Some t) ti di qi pi ci w = Inr w'
                  \<and> carregar_tarefas w' =
                      map (\<lambda>v. if id_tarefa v = id_tarefa t then migrar t' else v)
                        (carregar_tarefas w))))"
proof (intro conjI allI impI)
  show "(\<exists>t'. editar_campos lib t ti di qi pi ci = Inr t') \<longleftrightarrow>
          (isdigit (strip qi) \<longrightarrow> list_all decimal (strip qi))"
    by (rule editar_campos_retorna)
next
  fix t'
  assume r: "editar_campos lib t ti di qi pi ci = Inr t'"
    and d: "distinct (map id_tarefa (carregar_tarefas w))"
  have "carregar_tarefas (print TarefaAtualizada
            (salvar_tarefas (substituir t' (carregar_tarefas w)) w)) =
          map (\<lambda>v. if id_tarefa v = id_tarefa t then migrar t' else v) (carregar_tarefas w)"
    using substituir_distinct [OF d, of t'] id_editar_campos [OF r]
    by (simp add: carregar_print carregar_salvar migrar_carregados)
  then show "\<exists>w'. editar_tarefa_interativa lib (Some t) ti di qi pi ci w = Inr w'
                  \<and> carregar_tarefas w' =
                      map (\<lambda>v. if id_tarefa v = id_tarefa t then migrar t' else v)
                        (carregar_tarefas w)"
    by (simp add: editar_salva [OF r])
next
  fix t'
  assume r: "editar_campos lib t ti di qi pi ci = Inr t'"
  show "concluida t' \<longleftrightarrow> lower (strip ci) = ''s'' \<or> lower (strip ci) = ''sim''"
    using editar_campos_mantem(5) [OF r] by (simp add: afirmativo_iff)
qed (simp_all add: editar_campos_mantem)

theorem editar_mantem_campos_witness:
  "strip [] = [] \<and> distinct (map id_tarefa (carregar_tarefas mundo_ex))
   \<and> concluida tarefa_viagem
   \<and> editar_campos lib_ex tarefa_viagem [] [] [] [] ''n'' = Inr (tarefa_viagem\<lparr>concluida := False\<rparr>)
   \<and> (\<exists>w'. editar_tarefa_interativa lib_ex (Some tarefa_viagem) [] [] [] [] ''n'' mundo_ex = Inr w'
          \<and> carregar_tarefas w' =
              [tarefa_leite, tarefa_relatorio, tarefa_viagem\<lparr>concluida := False\<rparr>])"
proof -
  have h1: "strip [] = []"
    by (simp add: str_defs)
  have h2: "distinct (map id_tarefa (carregar_tarefas mundo_ex))"
    by (simp add: carregar_mundo_ex) (simp add: ex_defs)
  have v: "concluida tarefa_viagem"
    by (simp add: tarefa_viagem_def)
  have r: "editar_campos lib_ex tarefa_viagem [] [] [] [] ''n'' = Inr (tarefa_viagem\<lparr>concluida := False\<rparr>)"
    using nao_afirmativo_n by (simp add: editar_campos_def Let_def h1)
  have m: "migrar (tarefa_viagem\<lparr>concluida := False\<rparr>) = tarefa_viagem\<lparr>concluida := False\<rparr>"
    by (simp add: migrar_def pop_def tarefa_viagem_def)
  have i: "id_tarefa tarefa_leite \<noteq> id_tarefa tarefa_viagem
           \<and> id_tarefa tarefa_relatorio \<noteq> id_tarefa tarefa_viagem"
    by (simp add: ex_defs)
  from editar_mantem_campos [where lib = lib_ex and t = tarefa_viagem and ti = "[]" and di = "[]"
      and qi = "[]" and pi = "[]" and ci = "''n''" and w = mundo_ex] r h2
  have "\<exists>w'. editar_tarefa_interativa lib_ex (Some tarefa_viagem) [] [] [] [] ''n'' mundo_ex = Inr w'
          \<and> carregar_tarefas w' =
              map (\<lambda>v. if id_tarefa v = id_tarefa tarefa_viagem
                        then migrar (tarefa_viagem\<lparr>concluida := False\<rparr>) else v)
                (carregar_tarefas mundo_ex)"
    by blast
  with i have "\<exists>w'. editar_tarefa_interativa lib_ex (Some tarefa_viagem) [] [] [] [] ''n'' mundo_ex = Inr w'
          \<and> carregar_tarefas w' =
              [tarefa_leite, tarefa_relatorio, tarefa_viagem\<lparr>concluida := False\<rparr>]"
    by (simp add: carregar_mundo_ex m)
  with h1 h2 v r show ?thesis
    by (intro conjI)
qed



lemma valor_decimal_nonneg_aux:
  "list_all decimal s \<Longrightarrow> 0 \<le> n \<Longrightarrow> 0 \<le> foldl (\<lambda>n c. 10 * n + (int (of_char c) - 48)) n s"
  by (induction s arbitrary: n) (auto simp: decimal_def Let_def)

lemma valor_decimal_nonneg: "list_all decimal s \<Longrightarrow> 0 \<le> valor_decimal s"
  by (simp add: valor_decimal_def valor_decimal_nonneg_aux)

text \<open>
  What Edit does with the quantity typed when it runs to its end: an empty input keeps the
  quantity, an input that \<open>isdigit\<close> rejects unsets it, and a decimal number sets it.
\<close>

lemma editar_quantidade_decimal:
  assumes "editar_campos lib t ti di qi pi ci = Inr t'"
  shows "strip qi = [] \<longrightarrow> quantidade t' = quantidade t"
    and "strip qi \<noteq> [] \<and> \<not> isdigit (strip qi) \<longrightarrow> quantidade t' = None"
    and "isdigit (strip qi) \<longrightarrow>
           quantidade t' = Some (valor_decimal (strip qi)) \<and> 0 \<le> valor_decimal (strip qi)"
  using assms
  by (auto simp: editar_campos_def Let_def int_py_def valor_decimal_nonneg isdigit_def
        split: sum.splits option.splits if_splits)

text \<open>
  C10 fails in the code when the quantity typed is the one character superscript two
  (code point 178): the input is not empty, \<open>isdigit\<close> accepts it, and \<^verbatim>\<open>int\<close> raises
  \<^verbatim>\<open>ValueError\<close>, so that Edit raises instead of setting the quantity, and saves nothing.
\<close>

theorem editar_quantidade_sobrescrito:
  "strip [CHR 0xB2] = [CHR 0xB2] \<and> isdigit [CHR 0xB2]
   \<and> editar_campos lib_ex tarefa_relatorio [] [] [CHR 0xB2] [] [] = Inl ValueError
   \<and> editar_tarefa_interativa lib_ex (Some tarefa_relatorio) [] [] [CHR 0xB2] [] [] mundo_ex
       = Inl ValueError"
proof -
  have s: "strip [CHR 0xB2] = [CHR 0xB2] \<and> strip [] = []"
    by (simp add: strip_def isspace_def)
  have d: "isdigit [CHR 0xB2] \<and> int_py [CHR 0xB2] = Inl ValueError"
    by (simp add: isdigit_def digito_def decimal_def int_py_def)
  have r: "editar_campos lib_ex tarefa_relatorio [] [] [CHR 0xB2] [] [] = Inl ValueError"
    by (simp add: editar_campos_def Let_def s d)
  from s d r show ?thesis
    by (simp add: editar_tarefa_interativa_def)
qed

subsection \<open>The timer\<close>

lemma cronometro_laco_distinct:
  "distinct (map id_tarefa ts) \<Longrightarrow>
     cronometro_laco i d ts =
       (if i \<in> set (map id_tarefa ts)
        then Some (map (\<lambda>v. if id_tarefa v = i
                              then v\<lparr>ultimo_tempo_seg := d,
                                     total_tempo_seg := total_tempo_seg v + d\<rparr>
                              else v) ts)
        else None)"
proof (induction ts)
  case Nil
  then show ?case by simp
next
  case (Cons a ts)
  show ?case
  proof (cases "id_tarefa a = i")
    case True
    with Cons.prems have "\<forall>v \<in> set ts. id_tarefa v \<noteq> i"
      by (metis distinct.simps(2) image_eqI list.simps(9) set_map)
    then have "map (\<lambda>v. if id_tarefa v = i
                          then v\<lparr>ultimo_tempo_seg := d, total_tempo_seg := total_tempo_seg v + d\<rparr>
                          else v) ts = ts"
      by (simp add: map_idI)
    with True show ?thesis by simp
  next
    case False
    with Cons show ?thesis by simp
  qed
qed

lemma outros_carregados:
  "t \<in> set (carregar_tarefas w) \<Longrightarrow> pop ''tipo'' (outros t) = outros t"
proof -
  assume "t \<in> set (carregar_tarefas w)"
  then have "outros (migrar t) = outros t"
    by (simp add: migrar_carregados)
  then show ?thesis
    by (simp add: migrar_def)
qed

lemma map_acumula_ausente:
  "i \<notin> set (map id_tarefa ts) \<Longrightarrow>
     map (\<lambda>v. if id_tarefa v = i then f v else v) ts = ts"
  by (induction ts) auto

lemma carregar_cronometro:
  assumes "distinct (map id_tarefa (carregar_tarefas w))" and "lower (strip entrada) \<noteq> ''q''"
  shows "carregar_tarefas (iniciar_cronometro (Some t) entrada d w) =
           map (\<lambda>v. if id_tarefa v = id_tarefa t
                     then v\<lparr>ultimo_tempo_seg := d, total_tempo_seg := total_tempo_seg v + d\<rparr>
                     else v) (carregar_tarefas w)"
proof (cases "id_tarefa t \<in> set (map id_tarefa (carregar_tarefas w))")
  case True
  have "map migrar (map (\<lambda>v. if id_tarefa v = id_tarefa t
                     then v\<lparr>ultimo_tempo_seg := d, total_tempo_seg := total_tempo_seg v + d\<rparr>
                     else v) (carregar_tarefas w)) =
        map (\<lambda>v. if id_tarefa v = id_tarefa t
                     then v\<lparr>ultimo_tempo_seg := d, total_tempo_seg := total_tempo_seg v + d\<rparr>
                     else v) (carregar_tarefas w)"
    by (auto simp: migrar_def outros_carregados)
  with True assms show ?thesis
    by (simp add: iniciar_cronometro_def cronometro_laco_distinct carregar_print carregar_salvar)
next
  case False
  with assms show ?thesis
    by (simp add: iniciar_cronometro_def cronometro_laco_distinct map_acumula_ausente)
qed

lemma carregar_cronometro_fold:
  assumes "lower (strip entrada) \<noteq> ''q''"
  shows "distinct (map id_tarefa (carregar_tarefas w)) \<Longrightarrow> ds \<noteq> [] \<Longrightarrow>
     carregar_tarefas (fold (iniciar_cronometro (Some t) entrada) ds w) =
       map (\<lambda>v. if id_tarefa v = id_tarefa t
                 then v\<lparr>ultimo_tempo_seg := last ds,
                        total_tempo_seg := total_tempo_seg v + sum_list ds\<rparr>
                 else v) (carregar_tarefas w)"
proof (induction ds arbitrary: w)
  case Nil
  then show ?case by simp
next
  case (Cons d ds)
  let ?w = "iniciar_cronometro (Some t) entrada d w"
  have c: "carregar_tarefas ?w =
             map (\<lambda>v. if id_tarefa v = id_tarefa t
                       then v\<lparr>ultimo_tempo_seg := d, total_tempo_seg := total_tempo_seg v + d\<rparr>
                       else v) (carregar_tarefas w)"
    using Cons.prems(1) assms by (rule carregar_cronometro)
  show ?case
  proof (cases "ds = []")
    case True
    with c show ?thesis by simp
  next
    case False
    have "map id_tarefa (carregar_tarefas ?w) = map id_tarefa (carregar_tarefas w)"
      by (simp add: c comp_def if_distrib cong: if_cong)
    with Cons.prems(1) have "distinct (map id_tarefa (carregar_tarefas ?w))"
      by simp
    from Cons.IH [OF this False] False show ?thesis
      by (simp add: c comp_def algebra_simps cong: if_cong)
  qed
qed


text \<open>
  C4. In a collection with distinct ids, and when the timer is not cancelled at its start
  prompt, one session of duration \<open>d\<close> for the task \<open>t\<close> changes the collection in the record
  with the id of \<open>t\<close> only: its last duration becomes \<open>d\<close> and its total grows by \<open>d\<close>,
  every other field and every other record being the same. After the sessions
  \<open>d1, ..., dN\<close>, one after the other, the last duration of that record is \<open>dN\<close> and its
  total has grown by their sum.
\<close>

theorem cronometro_acumula:
  assumes "distinct (map id_tarefa (carregar_tarefas w))" and "lower (strip entrada) \<noteq> ''q''"
  shows "carregar_tarefas (iniciar_cronometro (Some t) entrada d w) =
           map (\<lambda>v. if id_tarefa v = id_tarefa t
                     then v\<lparr>ultimo_tempo_seg := d, total_tempo_seg := total_tempo_seg v + d\<rparr>
                     else v) (carregar_tarefas w)
         \<and> (ds \<noteq> [] \<longrightarrow>
             carregar_tarefas (fold (iniciar_cronometro (Some t) entrada) ds w) =
               map (\<lambda>v. if id_tarefa v = id_tarefa t
                         then v\<lparr>ultimo_tempo_seg := last ds,
                                total_tempo_seg := total_tempo_seg v + sum_list ds\<rparr>
                         else v) (carregar_tarefas w))"
  using assms by (simp add: carregar_cronometro carregar_cronometro_fold)

theorem cronometro_acumula_witness:
  "distinct (map id_tarefa (carregar_tarefas mundo_ex)) \<and> lower (strip []) \<noteq> ''q''
   \<and> total_tempo_seg tarefa_relatorio = 125
   \<and> carregar_tarefas (iniciar_cronometro (Some tarefa_relatorio) [] 10 mundo_ex) =
       [tarefa_leite,
        tarefa_relatorio\<lparr>ultimo_tempo_seg := 10, total_tempo_seg := 135\<rparr>,
        tarefa_viagem]
   \<and> carregar_tarefas (fold (iniciar_cronometro (Some tarefa_relatorio) []) [10, 5] mundo_ex) =
       [tarefa_leite,
        tarefa_relatorio\<lparr>ultimo_tempo_seg := 5, total_tempo_seg := 140\<rparr>,
        tarefa_viagem]"
proof -
  have h1: "distinct (map id_tarefa (carregar_tarefas mundo_ex))"
    by (simp add: carregar_mundo_ex) (simp add: ex_defs)
  have h2: "lower (strip []) \<noteq> ''q''"
    by (simp add: strip_def lower_def)
  have i: "id_tarefa tarefa_leite \<noteq> id_tarefa tarefa_relatorio
           \<and> id_tarefa tarefa_viagem \<noteq> id_tarefa tarefa_relatorio
           \<and> total_tempo_seg tarefa_relatorio = 125"
    by (simp add: ex_defs)
  show ?thesis
    using h1 h2 i
      cronometro_acumula [OF h1 h2, where t = tarefa_relatorio and d = 10 and ds = "[10, 5]"]
    by (simp add: carregar_mundo_ex)
qed

subsection \<open>A selected task that is gone at the reload\<close>

lemma marcar_laco_ausente:
  "i \<notin> set (map id_tarefa ts) \<Longrightarrow> marcar_laco i ts = None"
  by (induction ts) auto

lemma substituir_ausente:
  "id_tarefa t \<notin> set (map id_tarefa ts) \<Longrightarrow> substituir t ts = ts"
  by (induction ts) auto

lemma filter_ausente:
  "i \<notin> set (map id_tarefa ts) \<Longrightarrow> filter (\<lambda>x. id_tarefa x \<noteq> i) ts = ts"
  by (induction ts) auto

lemma carregar_regravado:
  "carregar_tarefas (print m (salvar_tarefas (carregar_tarefas w) w)) = carregar_tarefas w"
  by (simp add: carregar_print carregar_salvar map_migrar_id [OF subset_refl])

lemma afirmativo_s: "afirmativo ''s''"
  by code_simp

text \<open>
  C2, as the code has it. When the id of the selected task is not in the collection just
  reloaded: Toggle-Complete returns the world as it was, with no save and nothing printed;
  Edit, once the answers are read (it raises before the reload when the quantity typed makes
  \<^verbatim>\<open>int\<close> raise), and Delete when it is confirmed, save the reloaded collection back as it
  was loaded and print their usual message of success, so that the collection a later load
  returns is the one that was loaded; Delete when it is not confirmed does nothing.
\<close>

theorem id_ausente:
  assumes "id_tarefa t \<notin> set (map id_tarefa (carregar_tarefas w))"
  shows "marcar_tarefa (Some t) w = w
         \<and> (\<forall>t'. editar_campos lib t ti di qi pi ci = Inr t' \<longrightarrow>
               (\<exists>w'. editar_tarefa_interativa lib (Some t) ti di qi pi ci w = Inr w'
                    \<and> eventos w' =
                        eventos w @ [Salvou (carregar_tarefas w), Imprimiu TarefaAtualizada]
                    \<and> carregar_tarefas w' = carregar_tarefas w))
         \<and> (afirmativo conf \<longrightarrow>
              eventos (excluir_tarefa_interativa (Some t) conf w) =
                eventos w @ [Salvou (carregar_tarefas w), Imprimiu TarefaExcluida]
              \<and> carregar_tarefas (excluir_tarefa_interativa (Some t) conf w) =
                  carregar_tarefas w)
         \<and> (\<not> afirmativo conf \<longrightarrow> excluir_tarefa_interativa (Some t) conf w = w)"
proof -
  have m: "marcar_tarefa (Some t) w = w"
    using assms by (simp add: marcar_tarefa_def marcar_laco_ausente)
  have e: "\<exists>w'. editar_tarefa_interativa lib (Some t) ti di qi pi ci w = Inr w'
                \<and> eventos w' =
                    eventos w @ [Salvou (carregar_tarefas w), Imprimiu TarefaAtualizada]
                \<and> carregar_tarefas w' = carregar_tarefas w"
    if r: "editar_campos lib t ti di qi pi ci = Inr t'" for t'
  proof -
    have "id_tarefa t' \<notin> set (map id_tarefa (carregar_tarefas w))"
      using assms id_editar_campos [OF r] by simp
    then have s: "substituir t' (carregar_tarefas w) = carregar_tarefas w"
      by (rule substituir_ausente)
    show ?thesis
      by (simp add: editar_salva [OF r] s carregar_regravado)
         (simp add: print_def salvar_tarefas_def)
  qed
  have x1: "afirmativo conf \<longrightarrow>
              eventos (excluir_tarefa_interativa (Some t) conf w) =
                eventos w @ [Salvou (carregar_tarefas w), Imprimiu TarefaExcluida]
              \<and> carregar_tarefas (excluir_tarefa_interativa (Some t) conf w) =
                  carregar_tarefas w"
    using assms
    by (simp add: excluir_tarefa_interativa_def filter_ausente carregar_regravado Let_def)
       (simp add: print_def salvar_tarefas_def)
  have x2: "\<not> afirmativo conf \<longrightarrow> excluir_tarefa_interativa (Some t) conf w = w"
    by (simp add: excluir_tarefa_interativa_def)
  from m e x1 x2 show ?thesis by blast
qed

theorem id_ausente_witness:
  "id_tarefa tarefa_colorida \<notin> set (map id_tarefa (carregar_tarefas mundo_ex))
   \<and> afirmativo ''s'' \<and> \<not> afirmativo ''n''
   \<and> marcar_tarefa (Some tarefa_colorida) mundo_ex = mundo_ex
   \<and> editar_campos lib_ex tarefa_colorida ''Paint gate'' [] [] [] ''n''
       = Inr (tarefa_colorida\<lparr>titulo := ''Paint gate''\<rparr>)
   \<and> (\<exists>w'. editar_tarefa_interativa lib_ex (Some tarefa_colorida) ''Paint gate'' [] [] [] ''n''
              mundo_ex = Inr w'
          \<and> carregar_tarefas w' = [tarefa_leite, tarefa_relatorio, tarefa_viagem])
   \<and> carregar_tarefas (excluir_tarefa_interativa (Some tarefa_colorida) ''s'' mundo_ex)
       = [tarefa_leite, tarefa_relatorio, tarefa_viagem]
   \<and> excluir_tarefa_interativa (Some tarefa_colorida) ''n'' mundo_ex = mundo_ex"
proof -
  have h: "id_tarefa tarefa_colorida \<notin> set (map id_tarefa (carregar_tarefas mundo_ex))"
    by (simp add: carregar_mundo_ex) (simp add: ex_defs tarefa_colorida_def)
  have s: "strip [] = [] \<and> strip ''Paint gate'' = ''Paint gate''"
    by (simp add: str_defs)
  have r: "editar_campos lib_ex tarefa_colorida ''Paint gate'' [] [] [] ''n''
             = Inr (tarefa_colorida\<lparr>titulo := ''Paint gate''\<rparr>)"
    using nao_afirmativo_n by (simp add: editar_campos_def Let_def s) (simp add: tarefa_colorida_def)
  note a = id_ausente [OF h, where lib = lib_ex and ti = "''Paint gate''" and di = "[]"
      and qi = "[]" and pi = "[]" and ci = "''n''" and conf = "''s''"]
  note b = id_ausente [OF h, where lib = lib_ex and ti = "''Paint gate''" and di = "[]"
      and qi = "[]" and pi = "[]" and ci = "''n''" and conf = "''n''"]
  from a have 1: "marcar_tarefa (Some tarefa_colorida) mundo_ex = mundo_ex"
    by blast
  from a r have 2: "\<exists>w'. editar_tarefa_interativa lib_ex (Some tarefa_colorida) ''Paint gate''
                          [] [] [] ''n'' mundo_ex = Inr w'
                      \<and> carregar_tarefas w' = carregar_tarefas mundo_ex"
    by blast
  from a afirmativo_s
  have 3: "carregar_tarefas (excluir_tarefa_interativa (Some tarefa_colorida) ''s'' mundo_ex)
             = carregar_tarefas mundo_ex"
    by blast
  from b nao_afirmativo_n
  have 4: "excluir_tarefa_interativa (Some tarefa_colorida) ''n'' mundo_ex = mundo_ex"
    by blast
  from h r afirmativo_s nao_afirmativo_n 1 2 3 4 show ?thesis
    unfolding carregar_mundo_ex by (intro conjI)
qed

text \<open>
  C2, as the claim has it, fails: the id of the selected task is not in the reloaded
  collection, and yet Edit and Delete save, and no operation prints that the task was not
  found.
\<close>

theorem id_ausente_grava:
  "id_tarefa tarefa_colorida \<notin> set (map id_tarefa (carregar_tarefas mundo_ex))
   \<and> map_sum id eventos
        (editar_tarefa_interativa lib_ex (Some tarefa_colorida) ''Paint gate'' [] [] [] ''n''
           mundo_ex) =
       Inr [Salvou [tarefa_leite, tarefa_relatorio, tarefa_viagem], Imprimiu TarefaAtualizada]
   \<and> eventos (excluir_tarefa_interativa (Some tarefa_colorida) ''s'' mundo_ex) =
       [Salvou [tarefa_leite, tarefa_relatorio, tarefa_viagem], Imprimiu TarefaExcluida]
   \<and> eventos (marcar_tarefa (Some tarefa_colorida) mundo_ex) = []"
proof -
  have h: "id_tarefa tarefa_colorida \<notin> set (map id_tarefa (carregar_tarefas mundo_ex))"
    by (simp add: carregar_mundo_ex) (simp add: ex_defs tarefa_colorida_def)
  have s: "strip [] = [] \<and> strip ''Paint gate'' = ''Paint gate''"
    by (simp add: str_defs)
  have r: "editar_campos lib_ex tarefa_colorida ''Paint gate'' [] [] [] ''n''
             = Inr (tarefa_colorida\<lparr>titulo := ''Paint gate''\<rparr>)"
    using nao_afirmativo_n by (simp add: editar_campos_def Let_def s) (simp add: tarefa_colorida_def)
  have u: "substituir (tarefa_colorida\<lparr>titulo := ''Paint gate''\<rparr>) (carregar_tarefas mundo_ex) =
             carregar_tarefas mundo_ex"
    using h by (intro substituir_ausente) simp
  have e: "eventos mundo_ex = []"
    by (simp add: mundo_ex_def)
  have 1: "map_sum id eventos
        (editar_tarefa_interativa lib_ex (Some tarefa_colorida) ''Paint gate'' [] [] [] ''n''
           mundo_ex) =
       Inr [Salvou [tarefa_leite, tarefa_relatorio, tarefa_viagem], Imprimiu TarefaAtualizada]"
    by (simp add: editar_salva [OF r] u print_def salvar_tarefas_def e)
       (simp add: carregar_mundo_ex)
  have 2: "eventos (excluir_tarefa_interativa (Some tarefa_colorida) ''s'' mundo_ex) =
       [Salvou [tarefa_leite, tarefa_relatorio, tarefa_viagem], Imprimiu TarefaExcluida]"
    using afirmativo_s filter_ausente [OF h]
    by (simp add: excluir_tarefa_interativa_def Let_def print_def salvar_tarefas_def e)
       (simp add: carregar_mundo_ex)
  have 3: "eventos (marcar_tarefa (Some tarefa_colorida) mundo_ex) = []"
    using h by (simp add: marcar_tarefa_def marcar_laco_ausente e)
  from h 1 2 3 show ?thesis by blast
qed

subsection \<open>The total never decreases\<close>

lemma carregar_foldl_geral:
  "(\<And>v x. carregar_tarefas (f v x) = carregar_tarefas v) \<Longrightarrow>
     carregar_tarefas (foldl f w xs) = carregar_tarefas w"
  by (induction xs arbitrary: w) simp_all

lemma selecionar_tarefa_mundo:
  "carregar_tarefas (snd (selecionar_tarefa q_in idx_in w)) = carregar_tarefas w"
  by (simp add: selecionar_tarefa_def Let_def carregar_print carregar_foldl_geral
        split: prod.splits sum.splits)

lemma selecionar_tarefa_elem:
  assumes "fst (selecionar_tarefa q_in idx_in w) = Inr (Some t)"
  shows "t \<in> set (carregar_tarefas w)"
proof -
  let ?q = "lower (strip q_in)"
  let ?enc = "filter (\<lambda>t. contem ?q (id_tarefa t) \<or> contem ?q (lower (titulo t)))
                (carregar_tarefas w)"
  from assms have ne: "?enc \<noteq> []"
    by (auto simp: selecionar_tarefa_def Let_def split: if_splits)
  from assms have "t = hd ?enc \<or>
      (\<exists>n. 0 < n \<and> n \<le> int (length ?enc) \<and> t = ?enc ! nat (n - 1))"
    by (auto simp: selecionar_tarefa_def Let_def split: if_splits sum.splits)
  then have "t \<in> set ?enc"
  proof
    assume "t = hd ?enc"
    with ne show ?thesis by (metis hd_in_set)
  next
    assume "\<exists>n. 0 < n \<and> n \<le> int (length ?enc) \<and> t = ?enc ! nat (n - 1)"
    then obtain n where h: "0 < n" "n \<le> int (length ?enc)" "t = ?enc ! nat (n - 1)"
      by blast
    then have "nat (n - 1) < length ?enc"
      by linarith
    with h(3) show ?thesis
      using nth_mem by blast
  qed
  then show ?thesis by simp
qed

lemma ids_distintos:
  "distinct (map id_tarefa ts) \<Longrightarrow> a \<in> set ts \<Longrightarrow> b \<in> set ts \<Longrightarrow>
     id_tarefa a = id_tarefa b \<Longrightarrow> a = b"
  by (meson distinct_map inj_onD)

lemma total_migrar [simp]: "total_tempo_seg (migrar t) = total_tempo_seg t"
  by (simp add: migrar_def)

lemma id_migrar [simp]: "id_tarefa (migrar t) = id_tarefa t"
  by (simp add: migrar_def)

lemma marcar_laco_total:
  "marcar_laco i ts = Some ts' \<Longrightarrow> b \<in> set ts' \<Longrightarrow>
     \<exists>a \<in> set ts. id_tarefa a = id_tarefa b \<and> total_tempo_seg a \<le> total_tempo_seg b"
proof (induction ts arbitrary: ts')
  case Nil
  then show ?case by simp
next
  case (Cons x xs)
  show ?case
  proof (cases "id_tarefa x = i")
    case True
    with Cons.prems show ?thesis by auto
  next
    case False
    with Cons.prems obtain ys where ys: "marcar_laco i xs = Some ys" "ts' = x # ys"
      by auto
    with Cons.prems(2) have "b = x \<or> b \<in> set ys"
      by simp
    then show ?thesis
    proof
      assume "b = x"
      then show ?thesis by auto
    next
      assume "b \<in> set ys"
      from Cons.IH [OF ys(1) this] show ?thesis by auto
    qed
  qed
qed

lemma cronometro_laco_total:
  "cronometro_laco i d ts = Some ts' \<Longrightarrow> 0 \<le> d \<Longrightarrow> b \<in> set ts' \<Longrightarrow>
     \<exists>a \<in> set ts. id_tarefa a = id_tarefa b \<and> total_tempo_seg a \<le> total_tempo_seg b"
proof (induction ts arbitrary: ts')
  case Nil
  then show ?case by simp
next
  case (Cons x xs)
  show ?case
  proof (cases "id_tarefa x = i")
    case True
    with Cons.prems show ?thesis by auto
  next
    case False
    with Cons.prems obtain ys where ys: "cronometro_laco i d xs = Some ys" "ts' = x # ys"
      by auto
    with Cons.prems(3) have "b = x \<or> b \<in> set ys"
      by simp
    then show ?thesis
    proof
      assume "b = x"
      then show ?thesis by auto
    next
      assume "b \<in> set ys"
      from Cons.IH [OF ys(1) Cons.prems(2) this] show ?thesis by auto
    qed
  qed
qed

lemma substituir_total:
  "b \<in> set (substituir t ts) \<Longrightarrow> b = t \<or> b \<in> set ts"
  by (induction ts) (auto split: if_splits)


lemma carregados_migrados:
  "b \<in> set (map migrar ts) \<Longrightarrow> set ts \<subseteq> insert t (set (carregar_tarefas w)) \<Longrightarrow>
     b = migrar t \<or> b \<in> set (carregar_tarefas w)"
  using migrar_carregados by fastforce

lemma criar_total:
  assumes "criar_tarefa_interativa lib novo_id agora_dt ti di qi pi w = Inr w'"
    and "b \<in> set (carregar_tarefas w')"
  shows "b \<in> set (carregar_tarefas w) \<or> id_tarefa b = novo_id"
  using assms
  by (auto simp: criar_tarefa_interativa_def Let_def carregar_print carregar_salvar
        migrar_carregados split: if_splits sum.splits)

lemma editar_total:
  assumes "t \<in> set (carregar_tarefas w)"
    and "editar_tarefa_interativa lib (Some t) ti di qi pi ci w = Inr w'"
    and "b \<in> set (carregar_tarefas w')"
  shows "\<exists>a \<in> set (carregar_tarefas w).
           id_tarefa a = id_tarefa b \<and> total_tempo_seg a \<le> total_tempo_seg b"
proof -
  from assms(2) obtain t' where r: "editar_campos lib t ti di qi pi ci = Inr t'"
    by (auto simp: editar_tarefa_interativa_def split: sum.splits)
  with assms(2) have "w' = print TarefaAtualizada
      (salvar_tarefas (substituir t' (carregar_tarefas w)) w)"
    by (simp add: editar_salva)
  with assms(3) have "b \<in> set (map migrar (substituir t' (carregar_tarefas w)))"
    by (simp add: carregar_print carregar_salvar)
  moreover have "set (substituir t' (carregar_tarefas w)) \<subseteq> insert t' (set (carregar_tarefas w))"
    using substituir_total by blast
  ultimately have "b = migrar t' \<or> b \<in> set (carregar_tarefas w)"
    by (rule carregados_migrados)
  then show ?thesis
  proof
    assume "b = migrar t'"
    then have "id_tarefa t = id_tarefa b \<and> total_tempo_seg t \<le> total_tempo_seg b"
      by (simp add: id_editar_campos [OF r] total_editar_campos [OF r])
    with assms(1) show ?thesis by blast
  next
    assume "b \<in> set (carregar_tarefas w)"
    then show ?thesis by auto
  qed
qed

lemma excluir_total:
  assumes "b \<in> set (carregar_tarefas (excluir_tarefa_interativa sel conf w))"
  shows "b \<in> set (carregar_tarefas w)"
proof -
  have "map migrar (filter P (carregar_tarefas w)) = filter P (carregar_tarefas w)" for P
    by (rule map_migrar_id) auto
  with assms show ?thesis
    by (auto simp: excluir_tarefa_interativa_def Let_def carregar_print carregar_salvar
          split: option.splits if_splits)
qed

lemma laco_migrado:
  assumes "\<And>b. b \<in> set ts' \<Longrightarrow>
             \<exists>a \<in> set ts. id_tarefa a = id_tarefa b \<and> total_tempo_seg a \<le> total_tempo_seg b"
    and "b \<in> set (map migrar ts')"
  shows "\<exists>a \<in> set ts. id_tarefa a = id_tarefa b \<and> total_tempo_seg a \<le> total_tempo_seg b"
proof -
  from assms(2) obtain c where c: "c \<in> set ts'" "b = migrar c"
    by auto
  from assms(1) [OF c(1)] c(2) show ?thesis by simp
qed

lemma marcar_total:
  assumes "b \<in> set (carregar_tarefas (marcar_tarefa sel w))"
  shows "\<exists>a \<in> set (carregar_tarefas w).
           id_tarefa a = id_tarefa b \<and> total_tempo_seg a \<le> total_tempo_seg b"
proof (cases sel)
  case None
  with assms show ?thesis by (auto simp: marcar_tarefa_def)
next
  case (Some t)
  show ?thesis
  proof (cases "marcar_laco (id_tarefa t) (carregar_tarefas w)")
    case None
    with Some assms show ?thesis by (auto simp: marcar_tarefa_def)
  next
    case (Some ts')
    with \<open>sel = Some t\<close> assms have "b \<in> set (map migrar ts')"
      by (simp add: marcar_tarefa_def carregar_print carregar_salvar)
    with marcar_laco_total [OF Some] show ?thesis
      by (rule laco_migrado)
  qed
qed

lemma cronometro_total:
  assumes "0 \<le> dur" and "b \<in> set (carregar_tarefas (iniciar_cronometro sel entrada dur w))"
  shows "\<exists>a \<in> set (carregar_tarefas w).
           id_tarefa a = id_tarefa b \<and> total_tempo_seg a \<le> total_tempo_seg b"
proof (cases sel)
  case None
  with assms show ?thesis by (auto simp: iniciar_cronometro_def)
next
  case (Some t)
  show ?thesis
  proof (cases "lower (strip entrada) = ''q''")
    case True
    with Some assms show ?thesis by (auto simp: iniciar_cronometro_def)
  next
    case False
    show ?thesis
    proof (cases "cronometro_laco (id_tarefa t) dur (carregar_tarefas w)")
      case None
      with Some False assms show ?thesis by (auto simp: iniciar_cronometro_def)
    next
      case (Some ts')
      with \<open>sel = Some t\<close> False assms have "b \<in> set (map migrar ts')"
        by (simp add: iniciar_cronometro_def carregar_print carregar_salvar)
      with cronometro_laco_total [OF Some assms(1)] show ?thesis
        by (rule laco_migrado)
    qed
  qed
qed

lemma executar_total:
  assumes "admissivel opr w" and "b \<in> set (carregar_tarefas (snd (executar lib opr w)))"
  shows "(\<exists>a \<in> set (carregar_tarefas w).
            id_tarefa a = id_tarefa b \<and> total_tempo_seg a \<le> total_tempo_seg b)
         \<or> id_tarefa b \<notin> set (map id_tarefa (carregar_tarefas w))"
proof (cases opr)
  case (Criar novo_id agora_dt ti di qi pi)
  show ?thesis
  proof (cases "criar_tarefa_interativa lib novo_id agora_dt ti di qi pi w")
    case (Inl e)
    with assms Criar show ?thesis
      by (auto simp: fim_def)
  next
    case (Inr w')
    with assms Criar criar_total [OF Inr, of b] show ?thesis
      by (auto simp: fim_def)
  qed
next
  case (Editar q_in idx_in ti di qi pi ci)
  obtain r w1 where s: "selecionar_tarefa q_in idx_in w = (r, w1)"
    by (cases "selecionar_tarefa q_in idx_in w")
  then have w1: "carregar_tarefas w1 = carregar_tarefas w"
    using selecionar_tarefa_mundo [of q_in idx_in w] by simp
  show ?thesis
  proof (cases r)
    case (Inl e)
    with assms Editar s w1 show ?thesis by auto
  next
    case (Inr sel)
    show ?thesis
    proof (cases "editar_tarefa_interativa lib sel ti di qi pi ci w1")
      case (Inl e)
      with assms Editar s w1 \<open>r = Inr sel\<close> show ?thesis
        by (auto simp: fim_def)
    next
      case edited: (Inr w2)
      with assms Editar s \<open>r = Inr sel\<close> have b: "b \<in> set (carregar_tarefas w2)"
        by (simp add: fim_def)
      show ?thesis
      proof (cases sel)
        case None
        with edited b w1 show ?thesis
          by (auto simp: editar_tarefa_interativa_def)
      next
        case (Some t)
        with s \<open>r = Inr sel\<close> have "t \<in> set (carregar_tarefas w1)"
          using selecionar_tarefa_elem [of q_in idx_in w t] w1 by simp
        from editar_total [OF this] edited b Some w1 show ?thesis
          by simp
      qed
    qed
  qed
next
  case (Excluir q_in idx_in conf)
  obtain r w1 where s: "selecionar_tarefa q_in idx_in w = (r, w1)"
    by (cases "selecionar_tarefa q_in idx_in w")
  then have w1: "carregar_tarefas w1 = carregar_tarefas w"
    using selecionar_tarefa_mundo [of q_in idx_in w] by simp
  from assms Excluir s have "b \<in> set (carregar_tarefas w1)"
    using excluir_total by (cases r) auto
  with w1 show ?thesis by auto
next
  case (Marcar q_in idx_in)
  obtain r w1 where s: "selecionar_tarefa q_in idx_in w = (r, w1)"
    by (cases "selecionar_tarefa q_in idx_in w")
  then have w1: "carregar_tarefas w1 = carregar_tarefas w"
    using selecionar_tarefa_mundo [of q_in idx_in w] by simp
  show ?thesis
  proof (cases r)
    case (Inl e)
    with assms Marcar s w1 show ?thesis by auto
  next
    case (Inr sel)
    with assms Marcar s marcar_total [of b sel w1] w1 show ?thesis
      by simp
  qed
next
  case (Varrer agora_dt notificar)
  show ?thesis
  proof (cases "remover_vencidas lib agora_dt notificar w")
    case (Inl e)
    with assms Varrer show ?thesis
      by (auto simp: fim_def)
  next
    case (Inr w')
    with assms Varrer have "b \<in> set (carregar_tarefas w')"
      by (simp add: fim_def)
    with carregar_remover_vencidas [OF Inr] have "b \<in> set (carregar_tarefas w)"
      by simp
    then show ?thesis by auto
  qed
next
  case (Cronometrar q_in idx_in entrada dur)
  obtain r w1 where s: "selecionar_tarefa q_in idx_in w = (r, w1)"
    by (cases "selecionar_tarefa q_in idx_in w")
  then have w1: "carregar_tarefas w1 = carregar_tarefas w"
    using selecionar_tarefa_mundo [of q_in idx_in w] by simp
  show ?thesis
  proof (cases r)
    case (Inl e)
    with assms Cronometrar s w1 show ?thesis by auto
  next
    case (Inr sel)
    with assms Cronometrar s cronometro_total [of dur b sel entrada w1] w1 show ?thesis
      by simp
  qed
qed

text \<open>
  C6. In a collection with distinct ids, one operation of the menu (Create with an
  identifier that is not yet the id of a stored task, Edit, Delete, Toggle-Complete, the
  expiry sweep, or the timer with a duration that is not negative) never lowers a total,
  whether it returns or raises: a task of the collection before the operation and a task of
  the collection after it that have the same id are such that the total of the second is at
  least the total of the first.
\<close>

theorem total_nao_diminui:
  assumes "distinct (map id_tarefa (carregar_tarefas w))" and "admissivel opr w"
    and "a \<in> set (carregar_tarefas w)"
    and "b \<in> set (carregar_tarefas (snd (executar lib opr w)))"
    and "id_tarefa a = id_tarefa b"
  shows "total_tempo_seg a \<le> total_tempo_seg b"
proof -
  from assms(3) have "id_tarefa a \<in> id_tarefa ` set (carregar_tarefas w)"
    by (rule imageI)
  with assms(5) have "id_tarefa b \<in> set (map id_tarefa (carregar_tarefas w))"
    by simp
  with executar_total [OF assms(2,4)] obtain a' where a':
    "a' \<in> set (carregar_tarefas w)" "id_tarefa a' = id_tarefa b"
    "total_tempo_seg a' \<le> total_tempo_seg b"
    by blast
  from assms(1,3) a'(1) have "a = a'"
    using assms(5) a'(2) by (intro ids_distintos [of "carregar_tarefas w"]) simp_all
  with a'(3) show ?thesis by simp
qed

lemma minusculas_ex:
  "lower (titulo tarefa_leite) = ''buy milk''
   \<and> lower (titulo tarefa_relatorio) = ''write report''
   \<and> lower (titulo tarefa_viagem) = ''book trip''
   \<and> lower (strip ''Report'') = ''report''"
  by code_simp

lemma selecionar_report:
  "selecionar_tarefa ''Report'' [] mundo_ex = (Inr (Some tarefa_relatorio), mundo_ex)"
  by (simp add: selecionar_tarefa_def Let_def carregar_mundo_ex minusculas_ex)
     (simp add: ex_defs)

theorem total_nao_diminui_witness:
  "distinct (map id_tarefa (carregar_tarefas mundo_ex))
   \<and> admissivel (Cronometrar ''Report'' [] [] 10) mundo_ex
   \<and> tarefa_relatorio \<in> set (carregar_tarefas mundo_ex)
   \<and> tarefa_relatorio\<lparr>ultimo_tempo_seg := 10, total_tempo_seg := 135\<rparr>
       \<in> set (carregar_tarefas (snd (executar lib_ex (Cronometrar ''Report'' [] [] 10) mundo_ex)))
   \<and> total_tempo_seg tarefa_relatorio
       \<le> total_tempo_seg (tarefa_relatorio\<lparr>ultimo_tempo_seg := 10, total_tempo_seg := 135\<rparr>)"
proof -
  have h1: "distinct (map id_tarefa (carregar_tarefas mundo_ex))"
    by (simp add: carregar_mundo_ex) (simp add: ex_defs)
  have h2: "admissivel (Cronometrar ''Report'' [] [] 10) mundo_ex"
    by simp
  have h3: "tarefa_relatorio \<in> set (carregar_tarefas mundo_ex)"
    by (simp add: carregar_mundo_ex)
  have q: "lower (strip []) \<noteq> ''q''"
    by (simp add: strip_def lower_def)
  have "carregar_tarefas (snd (executar lib_ex (Cronometrar ''Report'' [] [] 10) mundo_ex)) =
          [tarefa_leite,
           tarefa_relatorio\<lparr>ultimo_tempo_seg := 10, total_tempo_seg := 135\<rparr>,
           tarefa_viagem]"
    by (simp add: selecionar_report carregar_cronometro [OF h1 q] carregar_mundo_ex)
       (simp add: ex_defs)
  then have h4: "tarefa_relatorio\<lparr>ultimo_tempo_seg := 10, total_tempo_seg := 135\<rparr>
       \<in> set (carregar_tarefas (snd (executar lib_ex (Cronometrar ''Report'' [] [] 10) mundo_ex)))"
    by simp
  have h5: "id_tarefa tarefa_relatorio
              = id_tarefa (tarefa_relatorio\<lparr>ultimo_tempo_seg := 10, total_tempo_seg := 135\<rparr>)"
    by simp
  from h1 h2 h3 h4 total_nao_diminui [OF h1 h2 h3 h4 h5] show ?thesis
    by (intro conjI)
qed

end
